theory Spec2Isabelle
  imports Main "HOL-Library.Word"
begin

section \<open>The shared-memory chunk reducer of \<open>mp_tasks.py\<close>\<close>

text \<open>
  The function under study is
  \<^verbatim>\<open>
  def chunk_sum(shm_name, shape, dtype_str, start, end):
      dtype = np.dtype(dtype_str)
      shm = shared_memory.SharedMemory(name=shm_name)
      try:
          arr = np.ndarray(shape, dtype=dtype, buffer=shm.buf)
          return float(np.sum(arr[start:end]))
      finally:
          shm.close()
  \<close>
  Its five steps call into numpy and \<open>multiprocessing.shared_memory\<close>. Each library
  call is embedded as a function of its own, exceptions are values of type \<open>error\<close>, and
  the operating system's shared-memory objects together with the handles this
  process holds are an explicit \<open>world\<close> that every effectful step takes and returns.
  The platform is CPython 3.11 on 64-bit little-endian Linux with glibc.
\<close>

subsection \<open>Exceptions\<close>

text \<open>
  An exception is recorded by its Python class, an \<open>OSError\<close> that has no subclass of
  its own also by its error number. Messages are not recorded.
\<close>

datatype errno = EINVAL | ENAMETOOLONG

datatype error =
    TypeError
  | ValueError
  | IndexError
  | FileNotFoundError
  | OSError errno

subsection \<open>Floating-point values\<close>

text \<open>
  Every finite binary64 number is an integer multiple of \<open>2 ^ -1074\<close>, and so is every
  finite binary32 number. A finite value is therefore stored as that integer:
  \<open>Finite k\<close> stands for \<open>k * 2 ^ -1074\<close>. Addition is then exact integer addition
  followed by rounding to the format (nearest, ties to even), which is what IEEE 754
  prescribes. The two zeros are not told apart (Python's \<open>==\<close> does not tell them apart
  either) and all NaNs are one value.
\<close>

datatype fp = Finite int | PosInf | NegInf | NaN

text \<open>
  A format: \<open>prec\<close> significant bits, \<open>ebits\<close> bits of exponent field, and \<open>lo\<close>, the
  binary logarithm of its smallest subnormal in units of \<open>2 ^ -1074\<close>.
\<close>

record fmt =
  prec :: nat
  ebits :: nat
  lo :: nat

definition binary64 :: fmt where
  "binary64 = \<lparr>prec = 53, ebits = 11, lo = 0\<rparr>"

definition binary32 :: fmt where
  "binary32 = \<lparr>prec = 24, ebits = 8, lo = 925\<rparr>"

text \<open>Rounded magnitudes from \<open>2 ^ hi\<close> on overflow to an infinity.\<close>

definition hi :: "fmt \<Rightarrow> nat" where
  "hi f = lo f + (2 ^ ebits f - 2) + (prec f - 1)"

text \<open>The number of binary digits of a positive integer.\<close>

function bitlen :: "int \<Rightarrow> nat" where
  "bitlen n = (if n \<le> 0 then 0 else Suc (bitlen (n div 2)))"
  by pat_completeness auto
termination
  by (relation "measure nat") auto

declare bitlen.simps [simp del]

text \<open>
  A non-negative integer rounded to a multiple of \<open>2 ^ sh\<close>: to the nearest one, and
  of two equally near ones to the one with the even quotient.
\<close>

definition round_at :: "nat \<Rightarrow> int \<Rightarrow> int" where
  "round_at sh m =
     (let q = m div 2 ^ sh;
          r = m mod 2 ^ sh
      in (if 2 ^ sh < 2 * r \<or> (2 * r = 2 ^ sh \<and> odd q) then q + 1 else q) * 2 ^ sh)"

text \<open>
  Rounding of the exact value \<open>k * 2 ^ -1074\<close> to a format, to nearest with ties to
  even: the magnitude keeps its leading \<open>prec\<close> binary digits, and never digits below
  the format's smallest subnormal.
\<close>

definition fp_round :: "fmt \<Rightarrow> int \<Rightarrow> fp" where
  "fp_round f k =
     (let m' = round_at (max (bitlen \<bar>k\<bar> - prec f) (lo f)) \<bar>k\<bar>
      in if 2 ^ hi f \<le> m' then (if k < 0 then NegInf else PosInf)
         else Finite (sgn k * m'))"

fun fp_add :: "fmt \<Rightarrow> fp \<Rightarrow> fp \<Rightarrow> fp" where
  "fp_add f NaN y = NaN"
| "fp_add f x NaN = NaN"
| "fp_add f PosInf NegInf = NaN"
| "fp_add f NegInf PosInf = NaN"
| "fp_add f PosInf y = PosInf"
| "fp_add f NegInf y = NegInf"
| "fp_add f x PosInf = PosInf"
| "fp_add f x NegInf = NegInf"
| "fp_add f (Finite a) (Finite b) = fp_round f (a + b)"

text \<open>The exactly representable integer \<open>n\<close> as a floating-point value.\<close>

definition fp_of_int :: "int \<Rightarrow> fp" where
  "fp_of_int n = Finite (n * 2 ^ 1074)"

subsection \<open>Bytes and element types\<close>

type_synonym byte = "8 word"

text \<open>Little-endian reading of a run of bytes, as on the x86-64 and arm64 hosts.\<close>

fun le_int :: "byte list \<Rightarrow> int" where
  "le_int [] = 0"
| "le_int (b # bs) = uint b + 256 * le_int bs"

text \<open>
  Element types: the fixed-width integers and floats, and the fixed-width byte strings
  (numpy's \<open>S\<close> types), which can be viewed and sliced but not added.
\<close>

datatype kind = SignedInt | UnsignedInt | Floating | ByteString

record dtype =
  kind :: kind
  itemsize :: nat

text \<open>
  \<open>np.dtype(dtype_str)\<close> resolves a descriptor or raises \<open>TypeError\<close>. numpy's table of
  descriptors is large and differs between its versions; \<open>dtype_table\<close> is the part
  of it used here: the canonical names of the numeric formats, their sized codes
  (alone, or with the prefix \<open><\<close> for little-endian or \<open>=\<close> for native byte order), and
  the byte string \<open>S4\<close>. For these strings \<open>np_dtype\<close> is what numpy answers. A string
  outside the table is answered with \<open>TypeError\<close>, which is right for a string such as
  \<open>foo\<close> and wrong for the descriptors of numpy that the table leaves out; what holds
  of every descriptor that numpy rejects is therefore stated below for an arbitrary
  resolution function (\<open>chunk_sum_with\<close>), not for this table.
\<close>

definition sized_codes :: "(string \<times> dtype) list" where
  "sized_codes =
     [(''i1'', \<lparr>kind = SignedInt, itemsize = 1\<rparr>),
      (''i2'', \<lparr>kind = SignedInt, itemsize = 2\<rparr>),
      (''i4'', \<lparr>kind = SignedInt, itemsize = 4\<rparr>),
      (''i8'', \<lparr>kind = SignedInt, itemsize = 8\<rparr>),
      (''u1'', \<lparr>kind = UnsignedInt, itemsize = 1\<rparr>),
      (''u2'', \<lparr>kind = UnsignedInt, itemsize = 2\<rparr>),
      (''u4'', \<lparr>kind = UnsignedInt, itemsize = 4\<rparr>),
      (''u8'', \<lparr>kind = UnsignedInt, itemsize = 8\<rparr>),
      (''f4'', \<lparr>kind = Floating, itemsize = 4\<rparr>),
      (''f8'', \<lparr>kind = Floating, itemsize = 8\<rparr>)]"

definition dtype_table :: "(string \<times> dtype) list" where
  "dtype_table =
     [(''int8'', \<lparr>kind = SignedInt, itemsize = 1\<rparr>),
      (''int16'', \<lparr>kind = SignedInt, itemsize = 2\<rparr>),
      (''int32'', \<lparr>kind = SignedInt, itemsize = 4\<rparr>),
      (''int64'', \<lparr>kind = SignedInt, itemsize = 8\<rparr>),
      (''uint8'', \<lparr>kind = UnsignedInt, itemsize = 1\<rparr>),
      (''uint16'', \<lparr>kind = UnsignedInt, itemsize = 2\<rparr>),
      (''uint32'', \<lparr>kind = UnsignedInt, itemsize = 4\<rparr>),
      (''uint64'', \<lparr>kind = UnsignedInt, itemsize = 8\<rparr>),
      (''float32'', \<lparr>kind = Floating, itemsize = 4\<rparr>),
      (''float64'', \<lparr>kind = Floating, itemsize = 8\<rparr>),
      (''S4'', \<lparr>kind = ByteString, itemsize = 4\<rparr>)]
     @ sized_codes
     @ map (\<lambda>(c, d). (CHR ''<'' # c, d)) sized_codes
     @ map (\<lambda>(c, d). (CHR ''='' # c, d)) sized_codes"

definition np_dtype :: "string \<Rightarrow> error + dtype" where
  "np_dtype dtype_str =
     (case map_of dtype_table dtype_str of
        None \<Rightarrow> Inl TypeError
      | Some d \<Rightarrow> Inr d)"

text \<open>The floating-point format of a float element type, by its width.\<close>

definition fmt_of :: "dtype \<Rightarrow> fmt" where
  "fmt_of d = (if itemsize d = 8 then binary64 else binary32)"

text \<open>
  Decoding one element. An IEEE bit pattern with sign \<open>s\<close>, exponent field \<open>e\<close> and
  fraction \<open>t\<close> is an infinity or a NaN when \<open>e\<close> is all ones, the subnormal
  \<open>t * 2 ^ lo\<close> when \<open>e = 0\<close>, and \<open>(2 ^ (prec - 1) + t) * 2 ^ (e - 1) * 2 ^ lo\<close> otherwise.
\<close>

definition decode_float :: "fmt \<Rightarrow> int \<Rightarrow> fp" where
  "decode_float f bits =
     (let t = bits mod 2 ^ (prec f - 1);
          e = nat ((bits div 2 ^ (prec f - 1)) mod 2 ^ ebits f);
          neg = ((bits div 2 ^ (prec f - 1 + ebits f)) mod 2 = 1);
          mag = (if e = 0 then t * 2 ^ lo f
                 else (2 ^ (prec f - 1) + t) * 2 ^ (e - 1) * 2 ^ lo f)
      in if e = 2 ^ ebits f - 1
         then (if t = 0 then (if neg then NegInf else PosInf) else NaN)
         else Finite (if neg then - mag else mag))"

text \<open>An integer element: two's complement for the signed types.\<close>

definition decode_int :: "dtype \<Rightarrow> int \<Rightarrow> int" where
  "decode_int d bits =
     (if kind d = SignedInt \<and> 2 ^ (8 * itemsize d - 1) \<le> bits
      then bits - 2 ^ (8 * itemsize d)
      else bits)"

subsection \<open>Machine integers\<close>

text \<open>Signed 64-bit wrap-around, the arithmetic of numpy's sizes and of its integer
  accumulator.\<close>

definition wrap_int64 :: "int \<Rightarrow> int" where
  "wrap_int64 x = (x + 2 ^ 63) mod 2 ^ 64 - 2 ^ 63"

definition wrap_uint64 :: "int \<Rightarrow> int" where
  "wrap_uint64 x = x mod 2 ^ 64"

subsection \<open>Array views\<close>

text \<open>
  An \<open>ndarray\<close> built on a buffer is a view: the shape, the element type, the byte
  offset of its first element and the buffer it reads. Arrays here are C-contiguous,
  which is what \<open>np.ndarray(shape, dtype, buffer)\<close> builds and what slicing the first
  axis with step 1 keeps.
\<close>

record ndarray =
  dims :: "nat list"
  elt :: dtype
  offs :: nat
  buf :: "byte list"

text \<open>
  \<open>np.ndarray(shape, dtype=dtype, buffer=buf)\<close>, in the order of numpy's checks.
  A dimension that does not fit a signed 64-bit size is refused with \<open>ValueError\<close>
  when the shape is read. Then the byte count, the element width times the product of
  the dimensions, computed in signed 64-bit arithmetic that wraps around, is compared
  with the length of the buffer: a buffer shorter than it is refused with \<open>TypeError\<close>
  (buffer is too small for requested array). Last, when the array is laid out, a byte
  count over the non-zero dimensions that overflows the signed 64-bit size is refused
  with \<open>ValueError\<close> (array is too big). Dimensions are naturals: negative dimensions
  are not represented, and neither is numpy's limit on the number of dimensions.
\<close>

definition np_ndarray :: "nat list \<Rightarrow> dtype \<Rightarrow> byte list \<Rightarrow> error + ndarray" where
  "np_ndarray shape d b =
     (if list_ex (\<lambda>n. 2 ^ 63 \<le> n) shape
      then Inl ValueError
      else if int (length b) < wrap_int64 (int (itemsize d * prod_list shape))
      then Inl TypeError
      else if 2 ^ 63 \<le> itemsize d * prod_list (filter (\<lambda>n. 0 < n) shape)
      then Inl ValueError
      else Inr \<lparr>dims = shape, elt = d, offs = 0, buf = b\<rparr>)"

text \<open>
  Python's adjustment of one slice bound against an axis of \<open>n\<close> entries: a negative
  bound counts from the end, and the result is clamped to \<open>0 .. n\<close>.
\<close>

definition slice_bound :: "int \<Rightarrow> nat \<Rightarrow> nat" where
  "slice_bound i n = (if i < 0 then nat (max 0 (i + int n)) else min (nat i) n)"

text \<open>
  \<open>arr[start:end]\<close>: a view of the selected rows. A 0-dimensional array cannot be
  sliced. A start at or beyond the stop selects no rows (the subtraction on \<open>nat\<close>
  stops at 0, as Python's slice length does).
\<close>

definition getitem_slice :: "ndarray \<Rightarrow> int \<Rightarrow> int \<Rightarrow> error + ndarray" where
  "getitem_slice a start end =
     (case dims a of
        [] \<Rightarrow> Inl IndexError
      | n # rest \<Rightarrow>
          let b = slice_bound start n; e = slice_bound end n
          in Inr (a\<lparr>dims := (e - b) # rest,
                    offs := offs a + b * prod_list rest * itemsize (elt a)\<rparr>))"

text \<open>The raw bytes of the elements of a view, in row-major order.\<close>

definition items :: "ndarray \<Rightarrow> byte list list" where
  "items a =
     map (\<lambda>i. take (itemsize (elt a)) (drop (offs a + i * itemsize (elt a)) (buf a)))
       [0..<prod_list (dims a)]"

text \<open>The elements of a view as numbers, read as floats and read as integers.\<close>

definition float_items :: "ndarray \<Rightarrow> fp list" where
  "float_items a = map (\<lambda>bs. decode_float (fmt_of (elt a)) (le_int bs)) (items a)"

definition int_items :: "ndarray \<Rightarrow> int list" where
  "int_items a = map (\<lambda>bs. decode_int (elt a) (le_int bs)) (items a)"

subsection \<open>Summation\<close>

text \<open>
  numpy adds floating-point elements with its pairwise summation: fewer than 8 elements
  are added left to right; up to 128 elements go through eight interleaved accumulators
  that are combined as a balanced tree, the remaining tail added left to right; longer
  runs are split in two at a multiple of 8.
\<close>

function pairwise_sum :: "fmt \<Rightarrow> fp list \<Rightarrow> fp" where
  "pairwise_sum f a =
     (if length a < 8 then foldl (fp_add f) (Finite 0) a
      else if length a \<le> 128 then
        (let m = length a - length a mod 8;
             r = map (\<lambda>j. foldl (fp_add f) (a ! j) (map (\<lambda>i. a ! (8 * i + j)) [1..<m div 8]))
                   [0..<8];
             res = fp_add f
                     (fp_add f (fp_add f (r ! 0) (r ! 1)) (fp_add f (r ! 2) (r ! 3)))
                     (fp_add f (fp_add f (r ! 4) (r ! 5)) (fp_add f (r ! 6) (r ! 7)))
         in foldl (fp_add f) res (drop m a))
      else
        (let n2 = length a div 2 - (length a div 2) mod 8
         in fp_add f (pairwise_sum f (take n2 a)) (pairwise_sum f (drop n2 a))))"
  by pat_completeness auto
termination
  by (relation "measure (\<lambda>(f, a). length a)") auto

declare pairwise_sum.simps [simp del]

text \<open>
  A numpy scalar, the result of \<open>np.sum\<close>: an integer of the 64-bit accumulator type or
  a floating-point number of the array's own format.
\<close>

datatype npscalar = NpInt int | NpFloat fp

text \<open>
  \<open>np.sum(a)\<close> over all elements. A float array is reduced in its own format, starting
  from the identity 0. An integer array is reduced in the 64-bit integer of its
  signedness (the default platform integer on 64-bit Linux and macOS), wrapping
  silently. Byte strings have no addition: \<open>np.sum\<close> raises \<open>TypeError\<close>.
\<close>

definition np_sum :: "ndarray \<Rightarrow> error + npscalar" where
  "np_sum a =
     (case kind (elt a) of
        Floating \<Rightarrow>
          Inr (NpFloat (fp_add (fmt_of (elt a)) (Finite 0)
            (pairwise_sum (fmt_of (elt a)) (float_items a))))
      | SignedInt \<Rightarrow> Inr (NpInt (foldl (\<lambda>acc x. wrap_int64 (acc + x)) 0 (int_items a)))
      | UnsignedInt \<Rightarrow> Inr (NpInt (foldl (\<lambda>acc x. wrap_uint64 (acc + x)) 0 (int_items a)))
      | ByteString \<Rightarrow> Inl TypeError)"

text \<open>
  Python's \<open>float(x)\<close> on a numpy scalar: a 64-bit integer is rounded to the nearest
  double; a float32 or float64 value is returned as the same number.
\<close>

definition py_float :: "npscalar \<Rightarrow> fp" where
  "py_float x = (case x of NpInt n \<Rightarrow> fp_round binary64 (n * 2 ^ 1074) | NpFloat v \<Rightarrow> v)"

text \<open>The expression \<open>float(np.sum(a))\<close>.\<close>

definition float_of_sum :: "ndarray \<Rightarrow> error + fp" where
  "float_of_sum a = (case np_sum a of Inl e \<Rightarrow> Inl e | Inr x \<Rightarrow> Inr (py_float x))"

text \<open>Python's \<open>+\<close> on two floats, with which a caller combines partial results.\<close>

definition py_add :: "fp \<Rightarrow> fp \<Rightarrow> fp" where
  "py_add x y = fp_add binary64 x y"

subsection \<open>Named segments and handles\<close>

text \<open>
  The world outside the call: the shared-memory objects that exist (on Linux the files
  of \<open>/dev/shm\<close>, by file name), with their bytes; the handles this process currently
  holds, by the name they were opened under; and the log of attach and close
  operations performed so far.
\<close>

datatype event = Attach string | Close string

record world =
  files :: "string \<rightharpoonup> byte list"
  handles :: "string list"
  trace :: "event list"

text \<open>
  From the name given to \<open>SharedMemory\<close> (a string, here the bytes of its UTF-8
  encoding) to the file name. Python refuses a name with a NUL character
  (\<open>ValueError\<close>) and puts a slash before the name; \<open>shm_open\<close> drops all leading
  slashes and refuses what is left when it is empty, contains a slash or is \<open>.\<close> or
  \<open>..\<close> (\<open>OSError\<close> with \<open>EINVAL\<close>), and when it is longer than 255 bytes
  (\<open>OSError\<close> with \<open>ENAMETOOLONG\<close>). So \<open>seg\<close> and \<open>/seg\<close> name one object.
\<close>

definition shm_key :: "string \<Rightarrow> error + string" where
  "shm_key shm_name =
     (if CHR 0x00 \<in> set shm_name then Inl ValueError
      else
        let k = dropWhile (\<lambda>c. c = CHR ''/'') shm_name
        in if k = [] \<or> CHR ''/'' \<in> set k \<or> k = ''.'' \<or> k = ''..''
           then Inl (OSError EINVAL)
           else if 255 < length k then Inl (OSError ENAMETOOLONG)
           else Inr k)"

text \<open>
  The named segment a name refers to, if any: the bytes of the object of that name. An
  object without bytes cannot be mapped and is no segment.
\<close>

definition segments :: "world \<Rightarrow> string \<rightharpoonup> byte list" where
  "segments w shm_name =
     (case shm_key shm_name of
        Inl e \<Rightarrow> None
      | Inr k \<Rightarrow> (case files w k of None \<Rightarrow> None | Some b \<Rightarrow> if b = [] then None else Some b))"

text \<open>
  \<open>shared_memory.SharedMemory(name=shm_name)\<close> attaches to an existing segment. It
  raises the error of a name that is refused, \<open>FileNotFoundError\<close> when no object has
  the name, and \<open>ValueError\<close> when the object has no bytes (it cannot be mapped). The
  handle gives access to the segment's bytes (\<open>shm.buf\<close>). Objects that exist but may
  not be opened for lack of permission are not represented.
\<close>

definition SharedMemory :: "world \<Rightarrow> string \<Rightarrow> (error + byte list) \<times> world" where
  "SharedMemory w shm_name =
     (case shm_key shm_name of
        Inl e \<Rightarrow> (Inl e, w)
      | Inr k \<Rightarrow>
          (case files w k of
             None \<Rightarrow> (Inl FileNotFoundError, w)
           | Some b \<Rightarrow>
               if b = [] then (Inl ValueError, w)
               else (Inr b, w\<lparr>handles := shm_name # handles w,
                               trace := trace w @ [Attach shm_name]\<rparr>)))"

text \<open>
  \<open>shm.close()\<close> gives the handle back. It does not unlink: the objects are not
  touched. It succeeds although \<open>arr\<close> is still alive, because numpy takes the
  buffer's address and releases the buffer export at once. What Python's resource
  tracker does with attached segments when the process exits happens after the call
  and is not part of it.
\<close>

definition shm_close :: "world \<Rightarrow> string \<Rightarrow> world" where
  "shm_close w shm_name =
     w\<lparr>handles := remove1 shm_name (handles w), trace := trace w @ [Close shm_name]\<rparr>"

subsection \<open>The reducer\<close>

text \<open>
  The body of the \<open>try\<close> block: build the view, slice it, sum it, convert the sum.
\<close>

definition try_body :: "byte list \<Rightarrow> nat list \<Rightarrow> dtype \<Rightarrow> int \<Rightarrow> int \<Rightarrow> error + fp" where
  "try_body b shape d start end =
     (case np_ndarray shape d b of
        Inl e \<Rightarrow> Inl e
      | Inr arr \<Rightarrow>
          (case getitem_slice arr start end of
             Inl e \<Rightarrow> Inl e
           | Inr sl \<Rightarrow> float_of_sum sl))"

text \<open>
  The function, with what it asks of numpy left open: \<open>resolve\<close> stands for
  \<open>np.dtype\<close> and \<open>body\<close> for the block under \<open>try\<close>. The element type is resolved
  first; then the segment is attached; whatever the \<open>try\<close> block yields, value or
  exception, the \<open>finally\<close> clause closes the handle before it leaves the function.
\<close>

definition chunk_sum_with ::
  "(string \<Rightarrow> error + 'd) \<Rightarrow> (byte list \<Rightarrow> nat list \<Rightarrow> 'd \<Rightarrow> int \<Rightarrow> int \<Rightarrow> error + 'r) \<Rightarrow>
   world \<Rightarrow> string \<Rightarrow> nat list \<Rightarrow> string \<Rightarrow> int \<Rightarrow> int \<Rightarrow> (error + 'r) \<times> world" where
  "chunk_sum_with resolve body w shm_name shape dtype_str start end =
     (case resolve dtype_str of
        Inl e \<Rightarrow> (Inl e, w)
      | Inr d \<Rightarrow>
          (case SharedMemory w shm_name of
             (Inl e, w') \<Rightarrow> (Inl e, w')
           | (Inr b, w') \<Rightarrow> (body b shape d start end, shm_close w' shm_name)))"

text \<open>\<open>chunk_sum\<close> itself: the function with numpy as embedded above.\<close>

definition chunk_sum ::
  "world \<Rightarrow> string \<Rightarrow> nat list \<Rightarrow> string \<Rightarrow> int \<Rightarrow> int \<Rightarrow> (error + fp) \<times> world" where
  "chunk_sum = chunk_sum_with np_dtype try_body"

subsection \<open>Vocabulary of the specification\<close>


text \<open>The view of rows \<open>i\<close> up to \<open>j\<close> (exclusive) of the array of a shape over a buffer.\<close>

definition rows :: "nat list \<Rightarrow> dtype \<Rightarrow> byte list \<Rightarrow> nat \<Rightarrow> nat \<Rightarrow> ndarray" where
  "rows shape d b i j =
     \<lparr>dims = (j - i) # tl shape, elt = d,
      offs = i * prod_list (tl shape) * itemsize d, buf = b\<rparr>"



subsection \<open>Example segments\<close>

text \<open>A world with one shared-memory object and no handle open.\<close>

definition lone_segment :: "string \<Rightarrow> byte list \<Rightarrow> world" where
  "lone_segment k b = \<lparr>files = [k \<mapsto> b], handles = [], trace = []\<rparr>"

text \<open>The float64 array \<open>[1.0, 2.0, 3.0, 4.0]\<close>, little-endian.\<close>

definition f64_1_2_3_4 :: "byte list" where
  "f64_1_2_3_4 =
     [0, 0, 0, 0, 0, 0, 0xF0, 0x3F,  0, 0, 0, 0, 0, 0, 0, 0x40,
      0, 0, 0, 0, 0, 0, 0x08, 0x40,  0, 0, 0, 0, 0, 0, 0x10, 0x40]"




section \<open>Properties of the arithmetic\<close>

subsection \<open>Exact roundings and wrap-around\<close>


lemma round_at_exact:
  assumes "2 ^ sh dvd m"
  shows "round_at sh m = m"
proof -
  have r: "m mod 2 ^ sh = 0" using assms by simp
  have q: "m div 2 ^ sh * 2 ^ sh = m" using assms by simp
  show ?thesis
    unfolding round_at_def Let_def using r q by simp
qed



lemma hi_binary64: "hi binary64 = 2098"
  by (simp add: hi_def binary64_def)






lemma wrap_int64_id: "- (2 ^ 63) \<le> x \<Longrightarrow> x < 2 ^ 63 \<Longrightarrow> wrap_int64 x = x"
  by (simp add: wrap_int64_def)



subsection \<open>Rounding at a coarser scale\<close>

lemma bitlen_pos: "0 < m \<Longrightarrow> bitlen m = Suc (bitlen (m div 2))"
  by (subst bitlen.simps) simp

lemma bitlen_scale: "0 < m \<Longrightarrow> bitlen (m * 2 ^ e) = bitlen m + e"
proof (induction e)
  case 0
  then show ?case by simp
next
  case (Suc e)
  have pos: "0 < m * 2 ^ Suc e" using Suc.prems by simp
  have "m * 2 ^ Suc e div 2 = m * 2 ^ e" by simp
  then have "bitlen (m * 2 ^ Suc e) = Suc (bitlen (m * 2 ^ e))"
    using bitlen_pos [OF pos] by simp
  then show ?case using Suc by simp
qed

lemma round_at_scale: "round_at (s + e) (m * 2 ^ e) = round_at s m * 2 ^ e"
proof -
  have d: "m * 2 ^ e div 2 ^ (s + e) = m div 2 ^ s"
    by (simp add: power_add)
  have r: "m * 2 ^ e mod 2 ^ (s + e) = m mod 2 ^ s * 2 ^ e"
    by (simp add: power_add)
  have lt: "(2::int) ^ (s + e) < 2 * (m mod 2 ^ s * 2 ^ e) \<longleftrightarrow> 2 ^ s < 2 * (m mod 2 ^ s)"
  proof -
    have "(2::int) ^ (s + e) < 2 * (m mod 2 ^ s * 2 ^ e) \<longleftrightarrow>
          2 ^ s * 2 ^ e < (2 * (m mod 2 ^ s)) * 2 ^ e"
      by (simp add: power_add mult.assoc)
    also have "\<dots> \<longleftrightarrow> 2 ^ s < 2 * (m mod 2 ^ s)"
      by (rule mult_less_cancel_right_pos) simp
    finally show ?thesis .
  qed
  have eq: "2 * (m mod 2 ^ s * 2 ^ e) = (2::int) ^ (s + e) \<longleftrightarrow> 2 * (m mod 2 ^ s) = 2 ^ s"
  proof -
    have "2 * (m mod 2 ^ s * 2 ^ e) = (2::int) ^ (s + e) \<longleftrightarrow>
          (2 * (m mod 2 ^ s)) * 2 ^ e = 2 ^ s * 2 ^ e"
      by (simp add: power_add mult.assoc)
    also have "\<dots> \<longleftrightarrow> 2 * (m mod 2 ^ s) = 2 ^ s"
      by simp
    finally show ?thesis .
  qed
  show ?thesis
    unfolding round_at_def Let_def d r lt eq
    by (simp add: power_add mult.assoc)
qed

lemma fp_round_scaled:
  assumes e: "lo f \<le> e"
  shows "fp_round f (k * 2 ^ e) =
         (if 2 ^ hi f \<le> round_at (bitlen \<bar>k\<bar> - prec f) \<bar>k\<bar> * 2 ^ e
          then (if k < 0 then NegInf else PosInf)
          else Finite (sgn k * round_at (bitlen \<bar>k\<bar> - prec f) \<bar>k\<bar> * 2 ^ e))"
proof (cases "k = 0")
  case True
  have "round_at n 0 = 0" for n by (simp add: round_at_def)
  then show ?thesis using True by (simp add: fp_round_def)
next
  case False
  then have pos: "0 < \<bar>k\<bar>" by simp
  have abs: "\<bar>k * 2 ^ e\<bar> = \<bar>k\<bar> * 2 ^ e" by (simp add: abs_mult)
  have bl: "bitlen (\<bar>k\<bar> * 2 ^ e) = bitlen \<bar>k\<bar> + e"
    by (rule bitlen_scale [OF pos])
  have m': "round_at (max (bitlen (\<bar>k\<bar> * 2 ^ e) - prec f) (lo f)) (\<bar>k\<bar> * 2 ^ e) =
            round_at (bitlen \<bar>k\<bar> - prec f) \<bar>k\<bar> * 2 ^ e"
  proof (cases "prec f \<le> bitlen \<bar>k\<bar>")
    case True
    then have mx: "max (bitlen \<bar>k\<bar> + e - prec f) (lo f) = (bitlen \<bar>k\<bar> - prec f) + e"
      using e by simp
    show ?thesis by (simp only: bl mx round_at_scale)
  next
    case False
    then have le: "max (bitlen \<bar>k\<bar> + e - prec f) (lo f) \<le> e" using e by simp
    have "(2::int) ^ max (bitlen \<bar>k\<bar> + e - prec f) (lo f) dvd 2 ^ e"
      using le by (rule le_imp_power_dvd)
    then have "(2::int) ^ max (bitlen \<bar>k\<bar> + e - prec f) (lo f) dvd \<bar>k\<bar> * 2 ^ e"
      by (rule dvd_mult)
    then have 1: "round_at (max (bitlen \<bar>k\<bar> + e - prec f) (lo f)) (\<bar>k\<bar> * 2 ^ e) = \<bar>k\<bar> * 2 ^ e"
      by (rule round_at_exact)
    have z: "bitlen \<bar>k\<bar> - prec f = 0" using False by simp
    have 2: "round_at (bitlen \<bar>k\<bar> - prec f) \<bar>k\<bar> = \<bar>k\<bar>"
      unfolding z by (rule round_at_exact) simp
    show ?thesis by (simp only: bl 1 2)
  qed
  have neg: "k * 2 ^ e < 0 \<longleftrightarrow> k < 0"
    by (simp add: mult_less_0_iff)
  have sg: "sgn (k * 2 ^ e) = sgn k"
    by (simp add: sgn_mult)
  show ?thesis
    unfolding fp_round_def Let_def abs m' neg sg by (simp only: mult.assoc)
qed

lemma hi_binary32: "hi binary32 = 1202"
  by (simp add: hi_def binary32_def)

lemma fp_round_int:
  assumes f: "f = binary64 \<or> f = binary32"
    and r: "round_at (bitlen \<bar>n\<bar> - prec f) \<bar>n\<bar> < 2 ^ 128"
  shows "fp_round f (n * 2 ^ 1074) = fp_of_int (sgn n * round_at (bitlen \<bar>n\<bar> - prec f) \<bar>n\<bar>)"
proof -
  have lo: "lo f \<le> 1074" using f by (auto simp add: binary64_def binary32_def)
  have h: "128 + 1074 \<le> hi f" using f by (auto simp add: hi_binary64 hi_binary32)
  have "round_at (bitlen \<bar>n\<bar> - prec f) \<bar>n\<bar> * 2 ^ 1074 < 2 ^ 128 * (2 ^ 1074 :: int)"
    using r by (intro mult_strict_right_mono) simp_all
  also have "\<dots> = 2 ^ (128 + 1074)" by (simp only: power_add)
  also have "\<dots> \<le> 2 ^ hi f" using h by (intro power_increasing) simp_all
  finally have "\<not> 2 ^ hi f \<le> round_at (bitlen \<bar>n\<bar> - prec f) \<bar>n\<bar> * 2 ^ 1074" by simp
  then show ?thesis
    by (simp only: fp_round_scaled [OF lo] fp_of_int_def if_False)
qed

lemma fp_add_fp_of_int:
  "fp_add f (fp_of_int a) (fp_of_int b) = fp_round f ((a + b) * 2 ^ 1074)"
  by (simp only: fp_of_int_def fp_add.simps distrib_right)

lemma Finite_0: "Finite 0 = fp_of_int 0"
  by (simp only: fp_of_int_def mult_zero_left)


subsection \<open>Evaluating sums of integer-valued floats\<close>

lemma fp_round_binary64_int:
  assumes "round_at (bitlen \<bar>n\<bar> - 53) \<bar>n\<bar> < 2 ^ 128"
  shows "fp_round binary64 (n * 2 ^ 1074) = fp_of_int (sgn n * round_at (bitlen \<bar>n\<bar> - 53) \<bar>n\<bar>)"
proof -
  have p: "prec binary64 = 53" by (simp add: binary64_def)
  show ?thesis using fp_round_int [of binary64 n] assms by (simp only: p simp_thms)
qed

lemma fp_round_binary32_int:
  assumes "round_at (bitlen \<bar>n\<bar> - 24) \<bar>n\<bar> < 2 ^ 128"
  shows "fp_round binary32 (n * 2 ^ 1074) = fp_of_int (sgn n * round_at (bitlen \<bar>n\<bar> - 24) \<bar>n\<bar>)"
proof -
  have p: "prec binary32 = 24" by (simp add: binary32_def)
  show ?thesis using fp_round_int [of binary32 n] assms by (simp only: p simp_thms)
qed

lemma fp_add_int_binary64:
  assumes "round_at (bitlen \<bar>a + b\<bar> - 53) \<bar>a + b\<bar> < 2 ^ 128"
  shows "fp_add binary64 (fp_of_int a) (fp_of_int b) =
         fp_of_int (sgn (a + b) * round_at (bitlen \<bar>a + b\<bar> - 53) \<bar>a + b\<bar>)"
  using assms by (simp only: fp_add_fp_of_int fp_round_binary64_int)

lemma fp_add_int_binary32:
  assumes "round_at (bitlen \<bar>a + b\<bar> - 24) \<bar>a + b\<bar> < 2 ^ 128"
  shows "fp_add binary32 (fp_of_int a) (fp_of_int b) =
         fp_of_int (sgn (a + b) * round_at (bitlen \<bar>a + b\<bar> - 24) \<bar>a + b\<bar>)"
  using assms by (simp only: fp_add_fp_of_int fp_round_binary32_int)

lemma py_float_NpInt:
  assumes "round_at (bitlen \<bar>n\<bar> - 53) \<bar>n\<bar> < 2 ^ 128"
  shows "py_float (NpInt n) = fp_of_int (sgn n * round_at (bitlen \<bar>n\<bar> - 53) \<bar>n\<bar>)"
  using assms by (simp only: py_float_def npscalar.case fp_round_binary64_int)

lemmas fp_eval =
  Finite_0 fp_add_int_binary64 fp_add_int_binary32 py_float_NpInt py_add_def
  round_at_def bitlen.simps Let_def

section \<open>Properties of the reducer\<close>

subsection \<open>Attaching and releasing\<close>

lemma SharedMemory_attach:
  assumes "segments w shm_name = Some b"
  shows "SharedMemory w shm_name =
           (Inr b, w\<lparr>handles := shm_name # handles w, trace := trace w @ [Attach shm_name]\<rparr>)"
  using assms
  by (auto simp add: segments_def SharedMemory_def split: sum.splits option.splits if_splits)

lemma segments_update [simp]:
  "segments (w\<lparr>trace := t\<rparr>) = segments w" "segments (w\<lparr>handles := h\<rparr>) = segments w"
  by (rule ext, simp add: segments_def split: sum.split)+

lemma chunk_sum_attached:
  assumes "np_dtype dtype_str = Inr d" and "segments w shm_name = Some b"
  shows "chunk_sum w shm_name shape dtype_str start end =
           (try_body b shape d start end,
            w\<lparr>trace := trace w @ [Attach shm_name, Close shm_name]\<rparr>)"
  using assms
  by (simp add: chunk_sum_def chunk_sum_with_def SharedMemory_attach shm_close_def)

lemma np_dtype_float64: "np_dtype ''float64'' = Inr \<lparr>kind = Floating, itemsize = 8\<rparr>"
  by (simp add: np_dtype_def dtype_table_def)

lemma np_dtype_S4: "np_dtype ''S4'' = Inr \<lparr>kind = ByteString, itemsize = 4\<rparr>"
  by (simp add: np_dtype_def dtype_table_def)

lemma np_dtype_foo: "np_dtype ''foo'' = Inl TypeError"
  by (simp add: np_dtype_def dtype_table_def sized_codes_def)


lemma shm_key_seg: "shm_key ''seg'' = Inr ''seg''"
  by (simp add: shm_key_def)

lemma shm_key_nope: "shm_key ''nope'' = Inr ''nope''"
  by (simp add: shm_key_def)

lemma shm_key_empty: "shm_key [] = Inl (OSError EINVAL)"
  by (simp add: shm_key_def)

lemma segments_lone_segment:
  assumes "b \<noteq> []"
  shows "segments (lone_segment ''seg'' b) ''seg'' = Some b"
  using assms by (simp add: segments_def shm_key_seg lone_segment_def)

lemma segments_f64: "segments (lone_segment ''seg'' f64_1_2_3_4) ''seg'' = Some f64_1_2_3_4"
  by (rule segments_lone_segment) (simp add: f64_1_2_3_4_def)





lemma chunk_sum_files:
  "files (snd (chunk_sum w shm_name shape dtype_str start end)) = files w"
  by (simp add: chunk_sum_def chunk_sum_with_def SharedMemory_def shm_close_def
      split: sum.split option.split)

lemma chunk_sum_segments:
  "segments (snd (chunk_sum w shm_name shape dtype_str start end)) = segments w"
  by (rule ext) (simp add: segments_def chunk_sum_files split: sum.split)

lemma chunk_sum_result_files:
  assumes "files w' = files w"
  shows "fst (chunk_sum w' shm_name shape dtype_str start end) =
         fst (chunk_sum w shm_name shape dtype_str start end)"
  using assms
  by (simp add: chunk_sum_def chunk_sum_with_def SharedMemory_def shm_close_def
      split: sum.split option.split)

text \<open>
  Claim C1. Whenever \<open>chunk_sum\<close> attaches to the named segment (the element type
  resolves and the segment exists), then for every shape, start and end, hence on the
  path that returns a value and on every path that raises inside the \<open>try\<close> block
  alike, the handle is closed again when the call leaves: the handles held are those
  held before, and the call's log is one attach followed by one close. Closing does not
  unlink: the table of segments is unchanged, and an independent attach to the same
  name afterwards succeeds and sees the same bytes.
\<close>

theorem chunk_sum_releases_handle:
  assumes "np_dtype dtype_str = Inr d" and "segments w shm_name = Some b"
  shows "handles (snd (chunk_sum w shm_name shape dtype_str start end)) = handles w \<and>
         trace (snd (chunk_sum w shm_name shape dtype_str start end)) =
           trace w @ [Attach shm_name, Close shm_name] \<and>
         segments (snd (chunk_sum w shm_name shape dtype_str start end)) = segments w \<and>
         fst (SharedMemory (snd (chunk_sum w shm_name shape dtype_str start end)) shm_name) =
           Inr b"
  using assms by (simp add: chunk_sum_attached SharedMemory_attach)

text \<open>
  The theorem at work on the error path: a shape of five float64 elements does not fit
  the 32-byte segment, the call raises, and the handle is released all the same.
\<close>

theorem chunk_sum_releases_handle_witness:
  "np_dtype ''float64'' = Inr \<lparr>kind = Floating, itemsize = 8\<rparr> \<and>
   segments (lone_segment ''seg'' f64_1_2_3_4) ''seg'' = Some f64_1_2_3_4 \<and>
   handles (snd (chunk_sum (lone_segment ''seg'' f64_1_2_3_4) ''seg'' [5] ''float64'' 1 3)) = [] \<and>
   trace (snd (chunk_sum (lone_segment ''seg'' f64_1_2_3_4) ''seg'' [5] ''float64'' 1 3)) =
     [Attach ''seg'', Close ''seg''] \<and>
   fst (SharedMemory
         (snd (chunk_sum (lone_segment ''seg'' f64_1_2_3_4) ''seg'' [5] ''float64'' 1 3))
         ''seg'') = Inr f64_1_2_3_4"
  using chunk_sum_releases_handle [OF np_dtype_float64 segments_f64, of "[5]" 1 3]
  by (simp add: np_dtype_float64 segments_f64) (simp add: lone_segment_def)

text \<open>
  Claim C10, as stated, fails: \<open>S4\<close>, a string of four bytes, names no numeric format,
  yet \<open>np.dtype\<close> accepts it and the call does not fail before attaching. It attaches
  to the segment, fails inside the \<open>try\<close> block (byte strings cannot be summed) and
  releases the handle it had acquired.
\<close>

theorem chunk_sum_string_dtype_attaches:
  "np_dtype ''S4'' = Inr \<lparr>kind = ByteString, itemsize = 4\<rparr> \<and>
   fst (chunk_sum (lone_segment ''seg'' f64_1_2_3_4) ''seg'' [4] ''S4'' 1 3) = Inl TypeError \<and>
   trace (snd (chunk_sum (lone_segment ''seg'' f64_1_2_3_4) ''seg'' [4] ''S4'' 1 3)) =
     [Attach ''seg'', Close ''seg'']"
proof -
  have "try_body f64_1_2_3_4 [4] \<lparr>kind = ByteString, itemsize = 4\<rparr> 1 3 = Inl TypeError"
    by (simp add: try_body_def np_ndarray_def wrap_int64_def f64_1_2_3_4_def
        getitem_slice_def Let_def float_of_sum_def np_sum_def)
  then show ?thesis
    by (simp add: chunk_sum_attached [OF np_dtype_S4 segments_f64] np_dtype_S4)
      (simp add: lone_segment_def)
qed

text \<open>
  Claim C10, amended. For every element-type descriptor that \<open>np.dtype\<close> rejects,
  whichever descriptors \<open>np.dtype\<close> accepts and whatever the \<open>try\<close> block would do,
  \<open>chunk_sum\<close> fails with the error of \<open>np.dtype\<close> before it attaches: the world is
  returned as it was, so no handle was acquired, nothing is logged and nothing needs
  releasing.
\<close>

theorem chunk_sum_bad_dtype_before_attach:
  assumes "resolve dtype_str = Inl e"
  shows "chunk_sum_with resolve body w shm_name shape dtype_str start end = (Inl e, w)"
  using assms by (simp add: chunk_sum_with_def)

theorem chunk_sum_bad_dtype_before_attach_witness:
  "np_dtype ''foo'' = Inl TypeError \<and>
   chunk_sum (lone_segment ''seg'' f64_1_2_3_4) ''seg'' [4] ''foo'' 1 3 =
     (Inl TypeError, lone_segment ''seg'' f64_1_2_3_4) \<and>
   trace (snd (chunk_sum (lone_segment ''seg'' f64_1_2_3_4) ''seg'' [4] ''foo'' 1 3)) = []"
  using chunk_sum_bad_dtype_before_attach [where resolve = np_dtype and body = try_body,
      OF np_dtype_foo, of "lone_segment ''seg'' f64_1_2_3_4" "''seg''" "[4]" 1 3]
  by (simp add: np_dtype_foo chunk_sum_def) (simp add: lone_segment_def)

text \<open>
  Claim C7, as stated, fails: the empty name refers to no segment, and with it the call
  does not fail with \<open>FileNotFoundError\<close> but with the plain \<open>OSError\<close> (invalid
  argument) by which the operating system refuses a malformed name.
\<close>

theorem chunk_sum_malformed_name:
  "segments (lone_segment ''seg'' f64_1_2_3_4) [] = None \<and>
   np_dtype ''float64'' = Inr \<lparr>kind = Floating, itemsize = 8\<rparr> \<and>
   fst (chunk_sum (lone_segment ''seg'' f64_1_2_3_4) [] [4] ''float64'' 1 3) =
     Inl (OSError EINVAL) \<and>
   fst (chunk_sum (lone_segment ''seg'' f64_1_2_3_4) [] [4] ''float64'' 1 3) \<noteq>
     Inl FileNotFoundError"
  by (simp add: chunk_sum_def chunk_sum_with_def np_dtype_float64 SharedMemory_def
      segments_def shm_key_empty)

text \<open>
  Claim C7, amended. For every well-formed segment name (no NUL character and, once
  its leading slashes are dropped, not empty, without a slash, not \<open>.\<close> or \<open>..\<close> and at
  most 255 bytes long) under which no shared-memory object exists, and every
  element-type descriptor that \<open>np.dtype\<close> accepts, \<open>chunk_sum\<close> fails with
  \<open>FileNotFoundError\<close>, produces no value and leaves the world as it was: no handle is
  acquired.
\<close>

theorem chunk_sum_missing_segment:
  assumes "resolve dtype_str = Inr d" and "shm_key shm_name = Inr k" and "files w k = None"
  shows "chunk_sum_with resolve body w shm_name shape dtype_str start end =
           (Inl FileNotFoundError, w)"
  using assms by (simp add: chunk_sum_with_def SharedMemory_def)

theorem chunk_sum_missing_segment_witness:
  "np_dtype ''float64'' = Inr \<lparr>kind = Floating, itemsize = 8\<rparr> \<and>
   shm_key ''nope'' = Inr ''nope'' \<and>
   files (lone_segment ''seg'' f64_1_2_3_4) ''nope'' = None \<and>
   chunk_sum (lone_segment ''seg'' f64_1_2_3_4) ''nope'' [4] ''float64'' 1 3 =
     (Inl FileNotFoundError, lone_segment ''seg'' f64_1_2_3_4)"
proof -
  have f: "files (lone_segment ''seg'' f64_1_2_3_4) ''nope'' = None"
    by (simp add: lone_segment_def)
  show ?thesis
    using chunk_sum_missing_segment [where resolve = np_dtype and body = try_body,
        OF np_dtype_float64 shm_key_nope f, of "[4]" 1 3]
    by (simp add: np_dtype_float64 shm_key_nope f chunk_sum_def)
qed

text \<open>
  Claim C9. A call does not change the contents of any segment, and a second call with
  the same arguments, made in the world the first call left behind, yields the same
  result as the first.
\<close>

theorem chunk_sum_idempotent:
  "segments (snd (chunk_sum w shm_name shape dtype_str start end)) = segments w \<and>
   fst (chunk_sum (snd (chunk_sum w shm_name shape dtype_str start end))
          shm_name shape dtype_str start end) =
   fst (chunk_sum w shm_name shape dtype_str start end)"
  using chunk_sum_segments chunk_sum_result_files [OF chunk_sum_files] by blast

subsection \<open>The body of the \<open>try\<close> block on a valid view\<close>

lemma filter_positive: "0 \<notin> set shape \<Longrightarrow> filter (\<lambda>n::nat. 0 < n) shape = shape"
  by (induction shape) auto

lemma member_le_prod_list:
  "0 \<notin> set xs \<Longrightarrow> x \<in> set xs \<Longrightarrow> x \<le> prod_list xs" for x :: nat
proof (induction xs)
  case Nil
  then show ?case by simp
next
  case (Cons y ys)
  have y: "0 < y" using Cons.prems(1) by simp
  have "prod_list ys \<noteq> 0"
    using Cons.prems(1) by (simp add: prod_list_zero_iff)
  then have ys: "0 < prod_list ys" by simp
  show ?case
  proof (cases "x = y")
    case True
    then show ?thesis using ys by simp
  next
    case False
    then have "x \<le> prod_list ys" using Cons by simp
    also have "\<dots> \<le> y * prod_list ys" using y by simp
    finally show ?thesis by simp
  qed
qed

lemma dims_fit:
  assumes "0 \<notin> set shape" and "0 < itemsize d" and "itemsize d * prod_list shape < 2 ^ 63"
  shows "\<not> list_ex (\<lambda>n. 2 ^ 63 \<le> n) shape"
proof -
  have "\<not> 2 ^ 63 \<le> n" if "n \<in> set shape" for n
  proof -
    have "n \<le> prod_list shape" using assms(1) that by (rule member_le_prod_list)
    also have "\<dots> \<le> itemsize d * prod_list shape" using assms(2) by simp
    finally show ?thesis using assms(3) by simp
  qed
  then show ?thesis unfolding list_ex_iff by blast
qed

lemma wrap_int64_nat:
  assumes "n < 2 ^ 63"
  shows "wrap_int64 (int n) = int n"
proof -
  have "int n < int (2 ^ 63)" using assms by (simp only: of_nat_less_iff)
  then have "int n < 2 ^ 63" by simp
  then show ?thesis by (intro wrap_int64_id) simp_all
qed


lemma getitem_slice_rows:
  assumes "shape \<noteq> []"
  shows "getitem_slice \<lparr>dims = shape, elt = d, offs = 0, buf = b\<rparr> start end =
         Inr (rows shape d b (slice_bound start (hd shape)) (slice_bound end (hd shape)))"
  using assms by (cases shape) (simp_all add: getitem_slice_def rows_def Let_def)









subsection \<open>Ranges\<close>






subsection \<open>Shapes that do not fit the segment\<close>

lemma np_ndarray_too_small:
  assumes "length b < itemsize d * prod_list shape"
  shows "np_ndarray shape d b = Inl TypeError \<or> np_ndarray shape d b = Inl ValueError"
    and "itemsize d * prod_list shape < 2 ^ 63 \<Longrightarrow> np_ndarray shape d b = Inl TypeError"
proof -
  have pos: "0 < itemsize d * prod_list shape"
    using assms by (rule le_less_trans [OF le0])
  then have i: "0 < itemsize d" and "prod_list shape \<noteq> 0"
    by simp_all
  then have z: "0 \<notin> set shape"
    by (simp add: prod_list_zero_iff)
  have f: "filter (\<lambda>n. 0 < n) shape = shape"
    using z by (rule filter_positive)
  have small: "np_ndarray shape d b = Inl TypeError" if lt: "itemsize d * prod_list shape < 2 ^ 63"
  proof -
    have 1: "\<not> list_ex (\<lambda>n. 2 ^ 63 \<le> n) shape"
      using z i lt by (rule dims_fit)
    have 2: "int (length b) < wrap_int64 (int (itemsize d * prod_list shape))"
      using assms by (simp only: wrap_int64_nat [OF lt] of_nat_less_iff)
    show ?thesis
      unfolding np_ndarray_def using 1 2 by (simp only: if_False if_True)
  qed
  then show "itemsize d * prod_list shape < 2 ^ 63 \<Longrightarrow> np_ndarray shape d b = Inl TypeError" .
  show "np_ndarray shape d b = Inl TypeError \<or> np_ndarray shape d b = Inl ValueError"
  proof (cases "itemsize d * prod_list shape < 2 ^ 63")
    case True
    then show ?thesis using small by simp
  next
    case False
    then have "2 ^ 63 \<le> itemsize d * prod_list (filter (\<lambda>n. 0 < n) shape)"
      by (simp only: f not_less)
    then show ?thesis
      by (simp add: np_ndarray_def)
  qed
qed

text \<open>
  Claim C8. When the product of the dimensions times the element width exceeds the
  byte length of the segment, the call builds no array and reads no element: it fails
  with one of numpy's size errors and the handle is released. While the byte count
  fits a signed 64-bit size the error is \<open>TypeError\<close> (buffer is too small for
  requested array). Beyond that numpy compares the wrapped byte count with the buffer
  first, so the error is that \<open>TypeError\<close> or the \<open>ValueError\<close> of a dimension or an
  array that is too big. (The \<open>TypeError\<close> is asserted for at most 32 dimensions, which
  every version of numpy accepts.)
\<close>

theorem chunk_sum_buffer_too_small:
  assumes "np_dtype dtype_str = Inr d" and "segments w shm_name = Some b"
    and "length b < itemsize d * prod_list shape"
  shows "(fst (chunk_sum w shm_name shape dtype_str start end) = Inl TypeError \<or>
          fst (chunk_sum w shm_name shape dtype_str start end) = Inl ValueError) \<and>
         (length shape \<le> 32 \<and> itemsize d * prod_list shape < 2 ^ 63 \<longrightarrow>
            fst (chunk_sum w shm_name shape dtype_str start end) = Inl TypeError) \<and>
         handles (snd (chunk_sum w shm_name shape dtype_str start end)) = handles w \<and>
         segments (snd (chunk_sum w shm_name shape dtype_str start end)) = segments w"
proof -
  have r: "fst (chunk_sum w shm_name shape dtype_str start end) =
           (case np_ndarray shape d b of
              Inl e \<Rightarrow> Inl e
            | Inr arr \<Rightarrow>
                (case getitem_slice arr start end of
                   Inl e \<Rightarrow> Inl e
                 | Inr sl \<Rightarrow> float_of_sum sl))"
    by (simp only: chunk_sum_attached [OF assms(1,2)] fst_conv try_body_def)
  have 1: "fst (chunk_sum w shm_name shape dtype_str start end) = Inl TypeError \<or>
           fst (chunk_sum w shm_name shape dtype_str start end) = Inl ValueError"
    using np_ndarray_too_small(1) [OF assms(3)] by (auto simp add: r)
  have 2: "fst (chunk_sum w shm_name shape dtype_str start end) = Inl TypeError"
    if "itemsize d * prod_list shape < 2 ^ 63"
    using np_ndarray_too_small(2) [OF assms(3) that] by (simp add: r)
  have 3: "handles (snd (chunk_sum w shm_name shape dtype_str start end)) = handles w"
    "segments (snd (chunk_sum w shm_name shape dtype_str start end)) = segments w"
    by (simp_all add: chunk_sum_attached [OF assms(1,2)])
  show ?thesis
    using 1 2 3 by blast
qed

theorem chunk_sum_buffer_too_small_witness:
  "np_dtype ''float64'' = Inr \<lparr>kind = Floating, itemsize = 8\<rparr> \<and>
   segments (lone_segment ''seg'' f64_1_2_3_4) ''seg'' = Some f64_1_2_3_4 \<and>
   length f64_1_2_3_4 < itemsize \<lparr>kind = Floating, itemsize = 8\<rparr> * prod_list [5] \<and>
   length [5::nat] \<le> 32 \<and>
   itemsize \<lparr>kind = Floating, itemsize = 8\<rparr> * prod_list [5] < 2 ^ 63 \<and>
   fst (chunk_sum (lone_segment ''seg'' f64_1_2_3_4) ''seg'' [5] ''float64'' 1 3) =
     Inl TypeError \<and>
   handles (snd (chunk_sum (lone_segment ''seg'' f64_1_2_3_4) ''seg'' [5] ''float64'' 1 3)) = []"
proof -
  have l: "length f64_1_2_3_4 < itemsize \<lparr>kind = Floating, itemsize = 8\<rparr> * prod_list [5]"
    by (simp add: f64_1_2_3_4_def)
  show ?thesis
    using chunk_sum_buffer_too_small [OF np_dtype_float64 segments_f64 l, of 1 3] l
    by (simp add: np_dtype_float64 segments_f64) (simp add: lone_segment_def)
qed

text \<open>
  Two shapes whose byte count does not fit a signed 64-bit size, on the 32-byte
  segment. Eight times 2305843009213693957 is \<open>2 ^ 64 + 40\<close> and wraps around to 40
  bytes, more than the segment has: \<open>TypeError\<close>. Eight times \<open>2 ^ 60\<close> wraps around to
  a negative count, which the comparison with the buffer lets through, and is refused
  when the array is laid out: \<open>ValueError\<close>.
\<close>

lemma chunk_sum_wrapped_byte_count:
  "fst (chunk_sum (lone_segment ''seg'' f64_1_2_3_4) ''seg'' [2305843009213693957]
         ''float64'' 1 3) = Inl TypeError"
proof -
  have "try_body f64_1_2_3_4 [2305843009213693957] \<lparr>kind = Floating, itemsize = 8\<rparr> 1 3 =
        Inl TypeError"
    by (simp add: try_body_def np_ndarray_def wrap_int64_def f64_1_2_3_4_def)
  then show ?thesis
    by (simp add: chunk_sum_attached [OF np_dtype_float64 segments_f64])
qed

lemma chunk_sum_byte_count_overflow:
  "fst (chunk_sum (lone_segment ''seg'' f64_1_2_3_4) ''seg'' [1152921504606846976]
         ''float64'' 1 3) = Inl ValueError"
proof -
  have "try_body f64_1_2_3_4 [1152921504606846976] \<lparr>kind = Floating, itemsize = 8\<rparr> 1 3 =
        Inl ValueError"
    by (simp add: try_body_def np_ndarray_def wrap_int64_def f64_1_2_3_4_def)
  then show ?thesis
    by (simp add: chunk_sum_attached [OF np_dtype_float64 segments_f64])
qed

subsection \<open>Worked examples\<close>

lemma float_items_f64_example: "float_items (rows [4] \<lparr>kind = Floating, itemsize = 8\<rparr> f64_1_2_3_4 1 3) =
           [fp_of_int 2, fp_of_int 3]"
  by code_simp






lemma pairwise_sum_short:
  "length a < 8 \<Longrightarrow> pairwise_sum f a = foldl (fp_add f) (Finite 0) a"
  by (subst pairwise_sum.simps) simp

lemma items_buf_append:
  assumes "offs a + prod_list (dims a) * itemsize (elt a) \<le> length (buf a)"
  shows "items (a\<lparr>buf := buf a @ pad\<rparr>) = items a"
proof -
  have "take (itemsize (elt a)) (drop (offs a + i * itemsize (elt a)) (buf a @ pad)) =
        take (itemsize (elt a)) (drop (offs a + i * itemsize (elt a)) (buf a))"
    if "i < prod_list (dims a)" for i
  proof -
    have "Suc i * itemsize (elt a) \<le> prod_list (dims a) * itemsize (elt a)"
      using that by (intro mult_le_mono1) simp
    then have "offs a + i * itemsize (elt a) + itemsize (elt a) \<le> length (buf a)"
      using assms by simp
    then show ?thesis by simp
  qed
  then show ?thesis by (simp add: items_def)
qed

lemma np_sum_items_cong:
  assumes "items a = items a'" and "elt a = elt a'"
  shows "np_sum a = np_sum a'"
  using assms by (cases "kind (elt a')") (simp_all add: np_sum_def float_items_def int_items_def)







lemma np_sum_floating:
  assumes "elt a = \<lparr>kind = Floating, itemsize = n\<rparr>"
  shows "float_of_sum a =
         Inr (fp_add (fmt_of (elt a)) (Finite 0) (pairwise_sum (fmt_of (elt a)) (float_items a)))"
  using assms by (simp add: float_of_sum_def np_sum_def py_float_def)


lemma elt_rows: "elt (rows shape d b i j) = d"
  by (simp add: rows_def)

lemma fmt_of_8: "fmt_of \<lparr>kind = k, itemsize = 8\<rparr> = binary64"
  by (simp add: fmt_of_def)


lemma np_sum_f64_example:
  "float_of_sum (rows [4] \<lparr>kind = Floating, itemsize = 8\<rparr> f64_1_2_3_4 1 3) = Inr (fp_of_int 5)"
proof -
  have "pairwise_sum binary64 [fp_of_int 2, fp_of_int 3] = fp_of_int 5"
    by (simp add: pairwise_sum_short fp_eval)
  then have "fp_add binary64 (Finite 0) (pairwise_sum binary64 [fp_of_int 2, fp_of_int 3]) =
             fp_of_int 5"
    by (simp add: fp_eval)
  then show ?thesis
    by (simp only: np_sum_floating [OF elt_rows] elt_rows fmt_of_8 float_items_f64_example)
qed

text \<open>
  Claim C2. If the segment holds the float64 array \<open>[1.0, 2.0, 3.0, 4.0]\<close> (followed
  by any padding the operating system may have rounded the segment up with) and the
  shape is \<open>(4,)\<close>, then \<open>chunk_sum\<close> with \<open>start = 1\<close> and \<open>end = 3\<close> returns \<open>5.0\<close>.
\<close>

theorem chunk_sum_example:
  assumes "segments w shm_name = Some (f64_1_2_3_4 @ pad)"
  shows "fst (chunk_sum w shm_name [4] ''float64'' 1 3) = Inr (fp_of_int 5)"
proof -
  let ?d = "\<lparr>kind = Floating, itemsize = 8\<rparr>"
  have arr: "np_ndarray [4] ?d (f64_1_2_3_4 @ pad) =
             Inr \<lparr>dims = [4], elt = ?d, offs = 0, buf = f64_1_2_3_4 @ pad\<rparr>"
    by (simp add: np_ndarray_def wrap_int64_def f64_1_2_3_4_def)
  have b: "slice_bound 1 4 = 1" "slice_bound 3 4 = 3"
    by (simp_all add: slice_bound_def)
  have sl: "getitem_slice \<lparr>dims = [4], elt = ?d, offs = 0, buf = f64_1_2_3_4 @ pad\<rparr> 1 3 =
            Inr (rows [4] ?d (f64_1_2_3_4 @ pad) 1 3)"
    by (simp only: getitem_slice_rows [of "[4]", simplified] b)
  have r: "rows [4] ?d (f64_1_2_3_4 @ pad) 1 3 =
           (rows [4] ?d f64_1_2_3_4 1 3)\<lparr>buf := buf (rows [4] ?d f64_1_2_3_4 1 3) @ pad\<rparr>"
    by (simp add: rows_def)
  have "items (rows [4] ?d (f64_1_2_3_4 @ pad) 1 3) = items (rows [4] ?d f64_1_2_3_4 1 3)"
    unfolding r by (rule items_buf_append) (simp add: rows_def f64_1_2_3_4_def)
  then have "np_sum (rows [4] ?d (f64_1_2_3_4 @ pad) 1 3) = np_sum (rows [4] ?d f64_1_2_3_4 1 3)"
    by (rule np_sum_items_cong) (simp only: elt_rows)
  then have "float_of_sum (rows [4] ?d (f64_1_2_3_4 @ pad) 1 3) = Inr (fp_of_int 5)"
    by (simp only: float_of_sum_def flip: np_sum_f64_example)
  then have "try_body (f64_1_2_3_4 @ pad) [4] ?d 1 3 = Inr (fp_of_int 5)"
    by (simp only: try_body_def arr sl sum.case)
  then show ?thesis
    by (simp only: chunk_sum_attached [OF np_dtype_float64 assms] fst_conv)
qed

theorem chunk_sum_example_witness:
  "segments (lone_segment ''seg'' f64_1_2_3_4) ''seg'' = Some (f64_1_2_3_4 @ []) \<and>
   fst (chunk_sum (lone_segment ''seg'' f64_1_2_3_4) ''seg'' [4] ''float64'' 1 3) =
     Inr (fp_of_int 5)"
proof -
  have s: "segments (lone_segment ''seg'' f64_1_2_3_4) ''seg'' = Some (f64_1_2_3_4 @ [])"
    by (simp add: segments_f64)
  show ?thesis using chunk_sum_example [OF s] s by simp
qed

subsection \<open>The precision of the sum\<close>


subsection \<open>Splitting a range\<close>


subsection \<open>Integer sums within the exact range\<close>















end
